theory Spec2Isabelle
  imports Complex_Main "HOL-Library.Char_ord" "HOL-Library.List_Lexorder" "HOL-Library.Log_Nat"
begin

section \<open>The drift analyzer of the ETF rebalance tool\<close>

text \<open>
  This theory embeds the function \<^verbatim>\<open>analyze_data\<close> of \<^verbatim>\<open>app.py\<close> and
  proves properties of it.

  Conventions of the embedding:
  \<^item> A finite float is an exact rational: the numbers of a row agree with the
    program's up to the rounding of binary floating point. What a division by zero gives
    in numpy (\<^verbatim>\<open>inf\<close>, \<^verbatim>\<open>nan\<close>) is a value of its own, see \<open>npfloat\<close>. The one
    place where rounding decides an output, the threshold test of line 75, is evaluated
    in binary64.
  \<^item> A ticker is a list of Unicode code points. Column names and labels are compared
    only, and are byte strings; the two default status labels are their UTF-8 bytes.
  \<^item> The values of the account column are of any type \<open>'k\<close> that pandas can sort
    (numbers, text); a missing cell (NaN) is \<open>None\<close>. The ticker column holds text, the
    market-value column numbers, of dtype \<^verbatim>\<open>int64\<close> or \<^verbatim>\<open>float64\<close>; in an
    \<^verbatim>\<open>int64\<close> column every value is a whole number. The three configured columns
    have pairwise different names. Which columns the table carries is the separate field
    \<open>columns\<close>, read by the schema check only.
  \<^item> Two parts of the Python runtime are parameters, the record \<open>builtins\<close>: the
    upper-case table of Unicode that \<^verbatim>\<open>str.upper\<close> applies to each code point, and
    \<^verbatim>\<open>str\<close> on a value of the account column.
  \<^item> The module-level globals \<^verbatim>\<open>CONFIG\<close>, \<^verbatim>\<open>TARGET_WEIGHTS\<close> and \<^verbatim>\<open>COLS\<close>
    are the explicit argument \<open>cfg\<close>; the keys of \<open>target_weights\<close> are distinct, as
    those of a dictionary are.
  \<^item> \<^verbatim>\<open>analyze_data\<close> assigns to a column of its argument and may call
    \<^verbatim>\<open>st.error\<close>; the embedding returns the table after the call and the messages
    shown, next to the returned rows.
  \<^item> Each output cell \<^verbatim>\<open>"ratio (deviation)"\<close> is kept as the pair of numbers the
    program formats; the formatting itself is not modelled.
\<close>

subsection \<open>Data\<close>

type_synonym ustr = "nat list"

definition codepoints :: "string \<Rightarrow> ustr" where
  "codepoints s = map of_char s"

datatype dtype = Int64 | Float64

record 'k holding =
  account_id :: "'k option"
  ticker :: ustr
  market_value :: rat

record 'k dataframe =
  columns :: "string list"
  mv_dtype :: dtype
  rows :: "'k holding list"

record labels =
  warning :: string
  normal :: string

record config =
  col_account_id :: string
  col_ticker :: string
  col_market_value :: string
  target_weights :: "(ustr \<times> rat) list"
  drift_divisor_setting :: "rat option"
  status_labels :: "labels option"

text \<open>
  \<open>target_weights\<close> is the dictionary \<^verbatim>\<open>CONFIG['target_weights']\<close> in its insertion
  order; \<open>drift_divisor_setting\<close> is \<open>None\<close> when \<^verbatim>\<open>app_settings\<close> has no key
  \<^verbatim>\<open>drift_divisor\<close>, and \<open>status_labels\<close> is \<open>None\<close> when the configuration has no
  key \<^verbatim>\<open>status_labels\<close>.
\<close>

record 'k builtins =
  upper_full :: "nat \<Rightarrow> nat list"
  str_of :: "'k \<Rightarrow> string"

datatype npfloat = Fin rat | PosInf | NegInf | NaN

record account_row =
  acc_id :: string
  ticker_cells :: "(ustr \<times> npfloat \<times> npfloat) list"
  total_drift :: npfloat
  status :: string
  us_cell :: "npfloat \<times> npfloat"
  cn_cell :: "npfloat \<times> npfloat"

datatype error = ZeroDivisionError

datatype message = MissingColumns "string set" "string set"

record 'k analysis =
  df_after :: "'k dataframe"
  st_errors :: "message list"
  returned :: "error + account_row list"

subsection \<open>Arithmetic of numpy floats\<close>

text \<open>
  A numpy scalar divided by zero is no error: the quotient is \<^verbatim>\<open>inf\<close>, \<^verbatim>\<open>-inf\<close> or
  \<^verbatim>\<open>nan\<close>, and these values go through subtraction, \<^verbatim>\<open>abs\<close>, addition and
  comparison as IEEE 754 says. (The sign of a zero is not modelled.)
\<close>

definition true_divide :: "rat \<Rightarrow> rat \<Rightarrow> npfloat" where
  "true_divide a b =
     (if b \<noteq> 0 then Fin (a / b) else if a > 0 then PosInf else if a < 0 then NegInf else NaN)"

fun np_sub :: "npfloat \<Rightarrow> rat \<Rightarrow> npfloat" where
  "np_sub (Fin a) w = Fin (a - w)"
| "np_sub PosInf w = PosInf"
| "np_sub NegInf w = NegInf"
| "np_sub NaN w = NaN"

fun np_abs :: "npfloat \<Rightarrow> npfloat" where
  "np_abs (Fin a) = Fin \<bar>a\<bar>"
| "np_abs PosInf = PosInf"
| "np_abs NegInf = PosInf"
| "np_abs NaN = NaN"

fun np_add :: "npfloat \<Rightarrow> npfloat \<Rightarrow> npfloat" where
  "np_add (Fin a) (Fin b) = Fin (a + b)"
| "np_add NaN y = NaN"
| "np_add x NaN = NaN"
| "np_add PosInf NegInf = NaN"
| "np_add NegInf PosInf = NaN"
| "np_add PosInf y = PosInf"
| "np_add x PosInf = PosInf"
| "np_add NegInf y = NegInf"
| "np_add x NegInf = NegInf"

fun np_gt :: "npfloat \<Rightarrow> rat \<Rightarrow> bool" where
  "np_gt (Fin a) c = (a > c)"
| "np_gt PosInf c = True"
| "np_gt NegInf c = False"
| "np_gt NaN c = False"

fun np_div :: "npfloat \<Rightarrow> rat \<Rightarrow> npfloat" where
  "np_div (Fin a) d = true_divide a d"
| "np_div PosInf d = (if d < 0 then NegInf else PosInf)"
| "np_div NegInf d = (if d < 0 then PosInf else NegInf)"
| "np_div NaN d = NaN"

subsection \<open>Ticker normalisation: \<^verbatim>\<open>.str.strip().str.upper()\<close>\<close>

text \<open>
  \<^verbatim>\<open>str.strip()\<close> removes the code points for which \<^verbatim>\<open>str.isspace\<close> holds, from
  both ends. \<^verbatim>\<open>str.upper()\<close> replaces every code point by its full upper-case mapping,
  which may be more than one code point; the table comes from the Unicode database of the
  Python runtime and is the parameter \<open>U\<close>.
\<close>

definition isspace :: "nat \<Rightarrow> bool" where
  "isspace c =
     ((0x9 \<le> c \<and> c \<le> 0xD) \<or> (0x1C \<le> c \<and> c \<le> 0x20) \<or> c = 0x85 \<or> c = 0xA0 \<or>
      c = 0x1680 \<or> (0x2000 \<le> c \<and> c \<le> 0x200A) \<or> c = 0x2028 \<or> c = 0x2029 \<or>
      c = 0x202F \<or> c = 0x205F \<or> c = 0x3000)"

definition strip :: "ustr \<Rightarrow> ustr" where
  "strip s = rev (dropWhile isspace (rev (dropWhile isspace s)))"

definition upper :: "(nat \<Rightarrow> nat list) \<Rightarrow> ustr \<Rightarrow> ustr" where
  "upper U s = concat (map U s)"

definition normalize_ticker :: "(nat \<Rightarrow> nat list) \<Rightarrow> ustr \<Rightarrow> ustr" where
  "normalize_ticker U s = upper U (strip s)"

definition normalize_rows :: "(nat \<Rightarrow> nat list) \<Rightarrow> 'k holding list \<Rightarrow> 'k holding list" where
  "normalize_rows U rs = map (\<lambda>r. r\<lparr>ticker := normalize_ticker U (ticker r)\<rparr>) rs"

subsection \<open>Sums of the market-value column: \<^verbatim>\<open>[col_mv].sum()\<close>\<close>

text \<open>
  The sum of an \<^verbatim>\<open>int64\<close> column is computed in 64-bit two's complement and wraps
  around silently; the sum of a \<^verbatim>\<open>float64\<close> column is a float.
\<close>

definition wrap_int64 :: "int \<Rightarrow> int" where
  "wrap_int64 n = (n + 2 ^ 63) mod 2 ^ 64 - 2 ^ 63"

definition series_sum :: "dtype \<Rightarrow> rat list \<Rightarrow> rat" where
  "series_sum dt xs =
     (case dt of Int64 \<Rightarrow> of_int (wrap_int64 \<lfloor>sum_list xs\<rfloor>) | Float64 \<Rightarrow> sum_list xs)"

subsection \<open>Grouping: \<^verbatim>\<open>df.groupby(col_acc)\<close>\<close>

text \<open>
  The call passes no options, so the defaults of pandas apply: \<^verbatim>\<open>sort=True\<close> (the
  groups come in ascending order of their key) and \<^verbatim>\<open>dropna=True\<close> (rows whose key
  is missing belong to no group). Inside a group the rows keep their order. The keys are
  the values of the column as they are; line 42 turns a key into text afterwards.
\<close>

definition group_keys :: "('k::linorder) holding list \<Rightarrow> 'k list" where
  "group_keys rs = sort (remdups (List.map_filter account_id rs))"

definition groupby :: "('k::linorder) holding list \<Rightarrow> ('k \<times> 'k holding list) list" where
  "groupby rs = map (\<lambda>k. (k, filter (\<lambda>r. account_id r = Some k) rs)) (group_keys rs)"

subsection \<open>The loop over \<^verbatim>\<open>TARGET_WEIGHTS.items()\<close>\<close>

record loop_state =
  cells :: "(ustr \<times> npfloat \<times> npfloat) list"
  total_abs_diff :: npfloat
  holdings_mv :: "ustr \<rightharpoonup> rat"

definition actual_mv_of :: "dtype \<Rightarrow> 'k holding list \<Rightarrow> ustr \<Rightarrow> rat" where
  "actual_mv_of dt grp t = series_sum dt (map market_value (filter (\<lambda>r. ticker r = t) grp))"

definition ratio_of :: "rat \<Rightarrow> rat \<Rightarrow> npfloat" where
  "ratio_of mv total_mv = (if total_mv > 0 then true_divide mv total_mv else Fin 0)"

fun weights_loop ::
  "dtype \<Rightarrow> 'k holding list \<Rightarrow> rat \<Rightarrow> (ustr \<times> rat) list \<Rightarrow> loop_state \<Rightarrow> loop_state" where
  "weights_loop dt grp total_mv [] st = st"
| "weights_loop dt grp total_mv ((t, target_wgt) # rest) st =
     (let actual_mv = actual_mv_of dt grp t;
          actual_ratio = ratio_of actual_mv total_mv;
          diff = np_sub actual_ratio target_wgt
      in weights_loop dt grp total_mv rest
           \<lparr>cells = cells st @ [(t, actual_ratio, diff)],
            total_abs_diff = np_add (total_abs_diff st) (np_abs diff),
            holdings_mv = (holdings_mv st)(t \<mapsto> actual_mv)\<rparr>)"

subsection \<open>Rounding to binary64\<close>

text \<open>
  \<open>f64 x\<close> is the binary64 number nearest to \<open>x\<close>, ties to even: the significand
  has 53 bits. (Overflow and subnormal numbers are not modelled: \<open>x\<close> is 0 or between
  \<open>2 powi -1022\<close> and \<open>2 powi 1024\<close> in absolute value.) It is what the parser makes of a
  decimal number in \<^verbatim>\<open>config.json\<close> or in the source, and what every float operation
  makes of its exact result.
\<close>

definition f64 :: "rat \<Rightarrow> rat" where
  "f64 x =
     (if x = 0 then 0
      else
        let (p, q) = quotient_of \<bar>x\<bar>;
            d = bitlen p - bitlen q;
            e = (if 2 powi d \<le> \<bar>x\<bar> then d else d - 1);
            ulp = 2 powi (e - 52);
            m = \<bar>x\<bar> / ulp;
            f = \<lfloor>m\<rfloor>;
            r = m - of_int f;
            n = (if r < 1 / 2 then f else if r > 1 / 2 then f + 1
                 else if even f then f else f + 1)
        in sgn x * of_int n * ulp)"

fun binary64 :: "npfloat \<Rightarrow> npfloat" where
  "binary64 (Fin a) = Fin (f64 a)"
| "binary64 PosInf = PosInf"
| "binary64 NegInf = NegInf"
| "binary64 NaN = NaN"

subsection \<open>One account\<close>

definition get0 :: "(ustr \<rightharpoonup> rat) \<Rightarrow> ustr \<Rightarrow> rat" where
  "get0 d k = (case d k of None \<Rightarrow> 0 | Some v \<Rightarrow> v)"

definition default_labels :: labels where
  "default_labels =
     \<lparr>warning = [CHR 0xF0, CHR 0x9F, CHR 0x9A, CHR 0xA8, CHR 0x20, CHR 0xE9, CHR 0x9C,
                 CHR 0x80, CHR 0xE8, CHR 0xB0, CHR 0x83, CHR 0xE4, CHR 0xBB, CHR 0x93],
      normal = [CHR 0xE2, CHR 0x9C, CHR 0x85, CHR 0x20, CHR 0xE6, CHR 0xAD, CHR 0xA3,
                CHR 0xE5, CHR 0xB8, CHR 0xB8]\<rparr>"

definition drift_divisor :: "config \<Rightarrow> rat" where
  "drift_divisor cfg = (case drift_divisor_setting cfg of None \<Rightarrow> 2 | Some d \<Rightarrow> d)"

definition labels_of :: "config \<Rightarrow> labels" where
  "labels_of cfg = (case status_labels cfg of None \<Rightarrow> default_labels | Some l \<Rightarrow> l)"

definition target_us :: "config \<Rightarrow> rat" where
  "target_us cfg =
     get0 (map_of (target_weights cfg)) (codepoints ''VTI'') +
     get0 (map_of (target_weights cfg)) (codepoints ''SPY'')"

definition target_cn :: "config \<Rightarrow> rat" where
  "target_cn cfg =
     get0 (map_of (target_weights cfg)) (codepoints ''MCHI'') +
     get0 (map_of (target_weights cfg)) (codepoints ''ASHR'')"

text \<open>
  The cells of the two groups show the exact ratio and deviation. The status depends on
  the comparison of line 75, where rounding decides the outcome when a deviation is at
  the threshold; this comparison is evaluated as the program does it, in binary64:
  the weights as parsed, the sums converted, every operation rounded. It is the
  program's own whenever the sums of the market values are exact, as they are for whole
  numbers below \<open>2 ^ 53\<close>.
\<close>

definition target_us_f64 :: "config \<Rightarrow> rat" where
  "target_us_f64 cfg =
     f64 (f64 (get0 (map_of (target_weights cfg)) (codepoints ''VTI'')) +
          f64 (get0 (map_of (target_weights cfg)) (codepoints ''SPY'')))"

definition target_cn_f64 :: "config \<Rightarrow> rat" where
  "target_cn_f64 cfg =
     f64 (f64 (get0 (map_of (target_weights cfg)) (codepoints ''MCHI'')) +
          f64 (get0 (map_of (target_weights cfg)) (codepoints ''ASHR'')))"

definition ratio_f64 :: "rat \<Rightarrow> rat \<Rightarrow> npfloat" where
  "ratio_f64 mv total_mv =
     (if total_mv > 0 then binary64 (true_divide (f64 mv) (f64 total_mv)) else Fin 0)"

definition is_warning :: "npfloat \<Rightarrow> rat \<Rightarrow> npfloat \<Rightarrow> rat \<Rightarrow> bool" where
  "is_warning ratio_us tgt_us ratio_cn tgt_cn =
     (np_gt (np_abs (binary64 (np_sub ratio_us tgt_us))) (f64 0.02) \<or>
      np_gt (np_abs (binary64 (np_sub ratio_cn tgt_cn))) (f64 0.02))"

definition analyze_group ::
  "config \<Rightarrow> dtype \<Rightarrow> string \<Rightarrow> 'k holding list \<Rightarrow> error + account_row" where
  "analyze_group cfg dt acc grp =
     (let total_mv = series_sum dt (map market_value grp);
          st = weights_loop dt grp total_mv (target_weights cfg)
                 \<lparr>cells = [], total_abs_diff = Fin 0, holdings_mv = Map.empty\<rparr>
      in if drift_divisor cfg = 0 \<and> \<not> (total_mv > 0 \<and> target_weights cfg \<noteq> [])
         then Inl ZeroDivisionError
         else
           let actual_us = get0 (holdings_mv st) (codepoints ''VTI'') + get0 (holdings_mv st) (codepoints ''SPY'');
               ratio_us = ratio_of actual_us total_mv;
               actual_cn = get0 (holdings_mv st) (codepoints ''MCHI'') + get0 (holdings_mv st) (codepoints ''ASHR'');
               ratio_cn = ratio_of actual_cn total_mv;
               lbls = labels_of cfg
           in Inr \<lparr>acc_id = acc,
                   ticker_cells = cells st,
                   total_drift = np_div (total_abs_diff st) (drift_divisor cfg),
                   status = (if is_warning (ratio_f64 actual_us total_mv) (target_us_f64 cfg)
                                            (ratio_f64 actual_cn total_mv) (target_cn_f64 cfg)
                             then warning lbls else normal lbls),
                   us_cell = (ratio_us, np_sub ratio_us (target_us cfg)),
                   cn_cell = (ratio_cn, np_sub ratio_cn (target_cn cfg))\<rparr>)"

text \<open>
  Line 61 divides \<^verbatim>\<open>total_abs_diff\<close> by the divisor. With a divisor of 0 the outcome
  depends on what \<^verbatim>\<open>total_abs_diff\<close> is. It starts as the Python float \<^verbatim>\<open>0.0\<close> and
  becomes a numpy float as soon as a ratio computed by numpy is added, which happens when
  \<^verbatim>\<open>total_mv > 0\<close> and there is a target weight: then the quotient is \<^verbatim>\<open>inf\<close> or
  \<^verbatim>\<open>nan\<close> and the row is returned. Otherwise it still is a Python float, and Python
  raises \<^verbatim>\<open>ZeroDivisionError\<close>.
\<close>

subsection \<open>The whole function\<close>

fun analyze_groups ::
  "'k builtins \<Rightarrow> config \<Rightarrow> dtype \<Rightarrow> ('k \<times> 'k holding list) list \<Rightarrow> error + account_row list" where
  "analyze_groups py cfg dt [] = Inr []"
| "analyze_groups py cfg dt ((k, grp) # rest) =
     (case analyze_group cfg dt (str_of py k) grp of
        Inl e \<Rightarrow> Inl e
      | Inr row \<Rightarrow>
          (case analyze_groups py cfg dt rest of
             Inl e \<Rightarrow> Inl e
           | Inr results \<Rightarrow> Inr (row # results)))"

definition required_cols :: "config \<Rightarrow> string set" where
  "required_cols cfg = {col_account_id cfg, col_ticker cfg, col_market_value cfg}"

definition analyze_data ::
  "('k::linorder) builtins \<Rightarrow> config \<Rightarrow> 'k dataframe \<Rightarrow> 'k analysis" where
  "analyze_data py cfg df =
     (if \<not> required_cols cfg \<subseteq> set (columns df)
      then \<lparr>df_after = df,
            st_errors = [MissingColumns (required_cols cfg - set (columns df)) (required_cols cfg)],
            returned = Inr []\<rparr>
      else
        let df' = df\<lparr>rows := normalize_rows (upper_full py) (rows df)\<rparr>
        in \<lparr>df_after = df',
            st_errors = [],
            returned = analyze_groups py cfg (mv_dtype df') (groupby (rows df'))\<rparr>)"

subsection \<open>Quantities of the input table, for stating the properties\<close>

text \<open>
  These are read off the table as it is handed to \<open>analyze_data\<close>: the rows of an
  account, the sum of their market values, and the sum over the rows whose ticker,
  once trimmed and upper-cased, is \<open>t\<close>. \<open>tracked_mv\<close> is what
  \<^verbatim>\<open>holdings_mv.get(t, 0)\<close> finds after the loop: the dictionary has an entry for
  the configured tickers only. \<open>tracked_total\<close> and \<open>untracked_total\<close> split the
  market value of an account by whether the ticker of the row is a configured one.
  \<open>sums_fit\<close> says that no sum of an \<^verbatim>\<open>int64\<close> column can wrap around.
\<close>

definition account_rows :: "'k dataframe \<Rightarrow> 'k \<Rightarrow> 'k holding list" where
  "account_rows df k = filter (\<lambda>h. account_id h = Some k) (rows df)"

definition account_total :: "'k dataframe \<Rightarrow> 'k \<Rightarrow> rat" where
  "account_total df k = sum_list (map market_value (account_rows df k))"

definition account_ticker_mv :: "(nat \<Rightarrow> nat list) \<Rightarrow> 'k dataframe \<Rightarrow> 'k \<Rightarrow> ustr \<Rightarrow> rat" where
  "account_ticker_mv U df k t =
     sum_list (map market_value
       (filter (\<lambda>h. normalize_ticker U (ticker h) = t) (account_rows df k)))"

definition tracked_mv :: "(nat \<Rightarrow> nat list) \<Rightarrow> config \<Rightarrow> 'k dataframe \<Rightarrow> 'k \<Rightarrow> ustr \<Rightarrow> rat" where
  "tracked_mv U cfg df k t =
     (if t \<in> fst ` set (target_weights cfg) then account_ticker_mv U df k t else 0)"

definition tracked_total :: "(nat \<Rightarrow> nat list) \<Rightarrow> config \<Rightarrow> 'k dataframe \<Rightarrow> 'k \<Rightarrow> rat" where
  "tracked_total U cfg df k =
     sum_list (map market_value
       (filter (\<lambda>h. normalize_ticker U (ticker h) \<in> fst ` set (target_weights cfg))
          (account_rows df k)))"

definition untracked_total :: "(nat \<Rightarrow> nat list) \<Rightarrow> config \<Rightarrow> 'k dataframe \<Rightarrow> 'k \<Rightarrow> rat" where
  "untracked_total U cfg df k =
     sum_list (map market_value
       (filter (\<lambda>h. normalize_ticker U (ticker h) \<notin> fst ` set (target_weights cfg))
          (account_rows df k)))"

definition is_whole :: "rat \<Rightarrow> bool" where
  "is_whole x = (of_int \<lfloor>x\<rfloor> = x)"

definition sums_fit :: "'k dataframe \<Rightarrow> bool" where
  "sums_fit df =
     (mv_dtype df = Int64 \<longrightarrow>
        list_all (\<lambda>h. is_whole (market_value h)) (rows df) \<and>
        sum_list (map (\<lambda>h. \<bar>market_value h\<bar>) (rows df)) < 2 ^ 63)"

definition first_seen :: "'a list \<Rightarrow> 'a list" where
  "first_seen xs = rev (remdups (rev xs))"

text \<open>
  What the properties need of the upper-case table. \<open>ascii_case\<close>: on ASCII it maps the
  letters a to z to A to Z and nothing else. \<open>case_stable\<close>: it leaves white space alone,
  makes no white space and never deletes a code point, and upper-casing twice is
  upper-casing once.
\<close>

definition ascii_case :: "(nat \<Rightarrow> nat list) \<Rightarrow> bool" where
  "ascii_case U = (\<forall>c < 128. U c = (if 97 \<le> c \<and> c \<le> 122 then [c - 32] else [c]))"

definition case_stable :: "(nat \<Rightarrow> nat list) \<Rightarrow> bool" where
  "case_stable U =
     ((\<forall>c. isspace c \<longrightarrow> U c = [c]) \<and>
      (\<forall>c. \<not> isspace c \<longrightarrow> U c \<noteq> [] \<and> (\<forall>d \<in> set (U c). \<not> isspace d)) \<and>
      (\<forall>c. concat (map U (U c)) = U c))"

subsection \<open>Example data\<close>

definition ascii_upper :: "nat \<Rightarrow> nat list" where
  "ascii_upper c = (if 97 \<le> c \<and> c \<le> 122 then [c - 32] else [c])"

definition ex_py :: "string builtins" where
  "ex_py = \<lparr>upper_full = ascii_upper, str_of = id\<rparr>"

function str_nat :: "nat \<Rightarrow> string" where
  "str_nat n =
     (if n < 10 then [char_of (48 + n)] else str_nat (n div 10) @ [char_of (48 + n mod 10)])"
  by pat_completeness auto
termination
  by (relation "measure id") auto

definition ex_py_nat :: "nat builtins" where
  "ex_py_nat = \<lparr>upper_full = ascii_upper, str_of = str_nat\<rparr>"

definition ex_weights :: "(ustr \<times> rat) list" where
  "ex_weights = [(codepoints ''VTI'', 0.5), (codepoints ''MCHI'', 0.3),
                 (codepoints ''SPY'', 0.1), (codepoints ''ASHR'', 0.1)]"

definition ex_cfg :: config where
  "ex_cfg =
     \<lparr>col_account_id = ''account'', col_ticker = ''ticker'', col_market_value = ''mv'',
      target_weights = ex_weights, drift_divisor_setting = Some 2, status_labels = None\<rparr>"

definition table_of :: "dtype \<Rightarrow> ('k \<times> string \<times> rat) list \<Rightarrow> 'k dataframe" where
  "table_of dt xs =
     \<lparr>columns = [''account'', ''ticker'', ''mv''], mv_dtype = dt,
      rows = map (\<lambda>(a, t, m). \<lparr>account_id = Some a, ticker = codepoints t, market_value = m\<rparr>) xs\<rparr>"

definition ex_df :: "string dataframe" where
  "ex_df = table_of Int64
     [(''A1'', ''VTI'', 500), (''A1'', ''MCHI'', 200), (''A1'', ''CASH'', 300)]"

section \<open>Auxiliary facts\<close>

subsection \<open>Sums that do not wrap\<close>

lemma wrap_int64_id: "- (2 ^ 63) \<le> n \<Longrightarrow> n < 2 ^ 63 \<Longrightarrow> wrap_int64 n = n"
  by (simp add: wrap_int64_def)

lemma is_whole_sum_list: "list_all is_whole xs \<Longrightarrow> is_whole (sum_list xs)"
proof (induction xs)
  case Nil
  show ?case by (simp add: is_whole_def)
next
  case (Cons x xs)
  then have "of_int \<lfloor>x\<rfloor> = x" "of_int \<lfloor>sum_list xs\<rfloor> = sum_list xs"
    by (simp_all add: is_whole_def)
  then have "x + sum_list xs = of_int (\<lfloor>x\<rfloor> + \<lfloor>sum_list xs\<rfloor>)"
    by (simp only: of_int_add)
  then have "of_int \<lfloor>x + sum_list xs\<rfloor> = x + sum_list xs"
    by (metis floor_of_int)
  then show ?case by (simp add: is_whole_def)
qed

lemma abs_sum_list_le: "\<bar>sum_list xs\<bar> \<le> sum_list (map abs xs)" for xs :: "rat list"
  by (induction xs) auto

lemma series_sum_exact:
  assumes "dt = Int64 \<longrightarrow> list_all is_whole xs \<and> sum_list (map abs xs) < 2 ^ 63"
  shows "series_sum dt xs = sum_list xs"
proof (cases dt)
  case Float64
  then show ?thesis by (simp add: series_sum_def)
next
  case Int64
  with assms have w: "list_all is_whole xs" and b: "sum_list (map abs xs) < 2 ^ 63" by simp_all
  let ?n = "\<lfloor>sum_list xs\<rfloor>"
  from w have n: "of_int ?n = sum_list xs"
    using is_whole_sum_list by (simp add: is_whole_def)
  from b have "\<bar>sum_list xs\<bar> < 2 ^ 63"
    using abs_sum_list_le[of xs] by linarith
  then have "\<bar>(of_int ?n :: rat)\<bar> < of_int (2 ^ 63)" by (simp add: n)
  then have "\<bar>?n\<bar> < 2 ^ 63"
    by (metis of_int_abs of_int_less_iff)
  then have "wrap_int64 ?n = ?n" by (intro wrap_int64_id) linarith+
  with n Int64 show ?thesis by (simp add: series_sum_def)
qed

lemma sum_abs_filter_le:
  "sum_list (map (\<lambda>h. \<bar>f h\<bar>) (filter P xs)) \<le> sum_list (map (\<lambda>h. \<bar>f h\<bar>) xs)"
  for f :: "'a \<Rightarrow> rat"
  by (induction xs) auto

lemma series_sum_filter:
  assumes "sums_fit df"
  shows "series_sum (mv_dtype df) (map market_value (filter P (rows df))) =
         sum_list (map market_value (filter P (rows df)))"
proof (rule series_sum_exact, rule impI)
  assume "mv_dtype df = Int64"
  with assms have w: "list_all (\<lambda>h. is_whole (market_value h)) (rows df)"
    and b: "sum_list (map (\<lambda>h. \<bar>market_value h\<bar>) (rows df)) < 2 ^ 63"
    by (simp_all add: sums_fit_def)
  from w have "list_all is_whole (map market_value (filter P (rows df)))"
    by (simp add: list_all_iff)
  moreover have "sum_list (map abs (map market_value (filter P (rows df)))) < 2 ^ 63"
    using sum_abs_filter_le[of market_value P "rows df"] b by (simp add: comp_def)
  ultimately show "list_all is_whole (map market_value (filter P (rows df))) \<and>
      sum_list (map abs (map market_value (filter P (rows df)))) < 2 ^ 63"
    by (intro conjI)
qed

subsection \<open>Normalised rows\<close>

lemma normalize_rows_filter_account:
  "filter (\<lambda>h. account_id h = Some k) (normalize_rows U rs) =
   normalize_rows U (filter (\<lambda>h. account_id h = Some k) rs)"
  by (induction rs) (auto simp: normalize_rows_def)

lemma normalize_rows_market_value:
  "map market_value (normalize_rows U rs) = map market_value rs"
  by (simp add: normalize_rows_def)

lemma normalize_rows_account_id:
  "map account_id (normalize_rows U rs) = map account_id rs"
  by (simp add: normalize_rows_def)

lemma normalize_rows_filter_ticker:
  "map market_value (filter (\<lambda>r. ticker r = t) (normalize_rows U rs)) =
   map market_value (filter (\<lambda>h. normalize_ticker U (ticker h) = t) rs)"
  by (induction rs) (auto simp: normalize_rows_def)

lemma total_mv_account:
  assumes "sums_fit df"
  shows "series_sum (mv_dtype df) (map market_value (normalize_rows U (account_rows df k))) =
         account_total df k"
  using series_sum_filter[OF assms, of "\<lambda>h. account_id h = Some k"]
  by (simp add: normalize_rows_market_value account_total_def account_rows_def)

lemma actual_mv_account:
  assumes "sums_fit df"
  shows "actual_mv_of (mv_dtype df) (normalize_rows U (account_rows df k)) t =
         account_ticker_mv U df k t"
  using series_sum_filter[OF assms,
      of "\<lambda>h. account_id h = Some k \<and> normalize_ticker U (ticker h) = t"]
  by (simp add: actual_mv_of_def normalize_rows_filter_ticker account_ticker_mv_def
      account_rows_def conj_commute)

subsection \<open>Grouping\<close>

lemma map_filter_conv:
  "List.map_filter f xs = map the (filter (\<lambda>y. y \<noteq> None) (map f xs))"
  by (induction xs) (auto simp: List.map_filter_simps split: option.splits)

lemma group_keys_normalize: "group_keys (normalize_rows U rs) = group_keys rs"
  by (simp add: group_keys_def map_filter_conv normalize_rows_account_id)

lemma set_group_keys: "set (group_keys rs) = {k. Some k \<in> account_id ` set rs}"
  by (auto simp: group_keys_def map_filter_conv image_iff) (metis option.sel option.distinct(1))+

lemma groupby_normalize:
  "groupby (normalize_rows U (rows df)) =
     map (\<lambda>k. (k, normalize_rows U (account_rows df k))) (group_keys (rows df))"
  by (simp add: groupby_def group_keys_normalize normalize_rows_filter_account account_rows_def)

subsection \<open>The loop over the target weights\<close>

lemma ratio_of_Fin: "ratio_of mv tm = Fin (if tm > 0 then mv / tm else 0)"
  by (simp add: ratio_of_def true_divide_def)

lemma weights_loop_cells:
  "cells (weights_loop dt grp tm ws st) =
     cells st @ map (\<lambda>(t, w). (t, ratio_of (actual_mv_of dt grp t) tm,
                              np_sub (ratio_of (actual_mv_of dt grp t) tm) w)) ws"
  by (induction ws arbitrary: st) (auto simp: Let_def)

lemma weights_loop_total:
  "total_abs_diff st = Fin a \<Longrightarrow>
   total_abs_diff (weights_loop dt grp tm ws st) =
     Fin (a + (\<Sum>(t, w)\<leftarrow>ws. \<bar>(if tm > 0 then actual_mv_of dt grp t / tm else 0) - w\<bar>))"
  by (induction ws arbitrary: st a) (auto simp: Let_def ratio_of_Fin)

lemma weights_loop_holdings:
  "holdings_mv (weights_loop dt grp tm ws st) k =
     (if k \<in> fst ` set ws then Some (actual_mv_of dt grp k) else holdings_mv st k)"
  by (induction ws arbitrary: st) (auto simp: Let_def rev_image_eqI)

subsection \<open>One account\<close>

lemma analyze_group_ok:
  "drift_divisor cfg \<noteq> 0 \<Longrightarrow> \<exists>row. analyze_group cfg dt acc grp = Inr row"
  by (simp add: analyze_group_def Let_def)

lemma analyze_group_acc_id:
  "analyze_group cfg dt acc grp = Inr row \<Longrightarrow> acc_id row = acc"
  by (auto simp: analyze_group_def Let_def split: if_splits)

lemma get0_holdings:
  assumes "sums_fit df"
  shows "get0 (holdings_mv (weights_loop (mv_dtype df) (normalize_rows U (account_rows df k)) tm
           (target_weights cfg) \<lparr>cells = [], total_abs_diff = Fin 0, holdings_mv = Map.empty\<rparr>)) t =
         tracked_mv U cfg df k t"
  by (simp add: get0_def weights_loop_holdings tracked_mv_def actual_mv_account[OF assms])

lemma analyze_group_cells:
  assumes "sums_fit df"
    and "analyze_group cfg (mv_dtype df) acc (normalize_rows U (account_rows df k)) = Inr row"
  shows "ticker_cells row =
     map (\<lambda>(t, w). (t, ratio_of (account_ticker_mv U df k t) (account_total df k),
                      np_sub (ratio_of (account_ticker_mv U df k t) (account_total df k)) w))
       (target_weights cfg)"
  using assms(2)
  by (auto simp: analyze_group_def Let_def weights_loop_cells total_mv_account[OF assms(1)]
      actual_mv_account[OF assms(1)] split: if_splits)

lemma analyze_group_total_drift:
  assumes "sums_fit df"
    and "analyze_group cfg (mv_dtype df) acc (normalize_rows U (account_rows df k)) = Inr row"
  shows "total_drift row =
     np_div (Fin (\<Sum>(t, w)\<leftarrow>target_weights cfg.
         \<bar>(if account_total df k > 0 then account_ticker_mv U df k t / account_total df k else 0)
            - w\<bar>)) (drift_divisor cfg)"
proof -
  have "total_abs_diff (weights_loop (mv_dtype df) (normalize_rows U (account_rows df k))
          (account_total df k) (target_weights cfg)
          \<lparr>cells = [], total_abs_diff = Fin 0, holdings_mv = Map.empty\<rparr>) =
        Fin (0 + (\<Sum>(t, w)\<leftarrow>target_weights cfg.
         \<bar>(if account_total df k > 0 then account_ticker_mv U df k t / account_total df k else 0)
            - w\<bar>))"
    by (subst weights_loop_total[where a = 0])
      (simp_all add: actual_mv_account[OF assms(1)] cong del: if_weak_cong)
  with assms(2) show ?thesis
    by (auto simp: analyze_group_def Let_def total_mv_account[OF assms(1)] split: if_splits)
qed

lemma analyze_group_us_cell:
  assumes "sums_fit df"
    and "analyze_group cfg (mv_dtype df) acc (normalize_rows U (account_rows df k)) = Inr row"
  shows "us_cell row =
     (ratio_of (tracked_mv U cfg df k (codepoints ''VTI'') + tracked_mv U cfg df k (codepoints ''SPY''))
        (account_total df k),
      np_sub (ratio_of (tracked_mv U cfg df k (codepoints ''VTI'') +
                        tracked_mv U cfg df k (codepoints ''SPY'')) (account_total df k))
        (target_us cfg))"
  using assms(2)
  by (auto simp: analyze_group_def Let_def get0_holdings[OF assms(1)]
      total_mv_account[OF assms(1)] split: if_splits)

lemma analyze_group_cn_cell:
  assumes "sums_fit df"
    and "analyze_group cfg (mv_dtype df) acc (normalize_rows U (account_rows df k)) = Inr row"
  shows "cn_cell row =
     (ratio_of (tracked_mv U cfg df k (codepoints ''MCHI'') + tracked_mv U cfg df k (codepoints ''ASHR''))
        (account_total df k),
      np_sub (ratio_of (tracked_mv U cfg df k (codepoints ''MCHI'') +
                        tracked_mv U cfg df k (codepoints ''ASHR'')) (account_total df k))
        (target_cn cfg))"
  using assms(2)
  by (auto simp: analyze_group_def Let_def get0_holdings[OF assms(1)]
      total_mv_account[OF assms(1)] split: if_splits)

subsection \<open>All accounts\<close>

lemma analyze_groups_Inr:
  "analyze_groups py cfg dt gs = Inr results \<Longrightarrow>
   list_all2 (\<lambda>(k, g) row. analyze_group cfg dt (str_of py k) g = Inr row) gs results"
  by (induction gs arbitrary: results) (auto split: sum.splits)

lemma analyze_groups_ok:
  "drift_divisor cfg \<noteq> 0 \<Longrightarrow> \<exists>results. analyze_groups py cfg dt gs = Inr results"
proof (induction gs)
  case Nil
  show ?case by simp
next
  case (Cons g gs)
  obtain k grp where g: "g = (k, grp)" by (cases g)
  from Cons obtain results where "analyze_groups py cfg dt gs = Inr results" by blast
  moreover from Cons.prems obtain row where "analyze_group cfg dt (str_of py k) grp = Inr row"
    using analyze_group_ok by blast
  ultimately show ?case by (simp add: g)
qed

lemma returned_schema_ok:
  "required_cols cfg \<subseteq> set (columns df) \<Longrightarrow>
   returned (analyze_data py cfg df) =
     analyze_groups py cfg (mv_dtype df) (groupby (normalize_rows (upper_full py) (rows df)))"
  by (simp add: analyze_data_def Let_def)

lemma returned_ok:
  "required_cols cfg \<subseteq> set (columns df) \<Longrightarrow> drift_divisor cfg \<noteq> 0 \<Longrightarrow>
   \<exists>results. returned (analyze_data py cfg df) = Inr results"
  by (simp add: returned_schema_ok analyze_groups_ok)

lemma result_keys:
  assumes "required_cols cfg \<subseteq> set (columns df)"
    and "returned (analyze_data py cfg df) = Inr results"
  shows "list_all2
           (\<lambda>k row. analyze_group cfg (mv_dtype df) (str_of py k)
                        (normalize_rows (upper_full py) (account_rows df k)) = Inr row)
           (group_keys (rows df)) results"
proof -
  from assms have "list_all2 (\<lambda>(k, g) row. analyze_group cfg (mv_dtype df) (str_of py k) g = Inr row)
      (groupby (normalize_rows (upper_full py) (rows df))) results"
    by (simp add: returned_schema_ok analyze_groups_Inr)
  then show ?thesis
    by (simp add: groupby_normalize list_all2_map1)
qed

lemma result_row:
  assumes "required_cols cfg \<subseteq> set (columns df)"
    and "returned (analyze_data py cfg df) = Inr results"
    and "r \<in> set results"
  shows "\<exists>k. Some k \<in> account_id ` set (rows df) \<and>
             analyze_group cfg (mv_dtype df) (str_of py k)
               (normalize_rows (upper_full py) (account_rows df k)) = Inr r"
proof -
  let ?P = "\<lambda>k row. analyze_group cfg (mv_dtype df) (str_of py k)
      (normalize_rows (upper_full py) (account_rows df k)) = Inr row"
  have l: "list_all2 ?P (group_keys (rows df)) results"
    by (rule result_keys[OF assms(1,2)])
  from assms(3) obtain i where i: "i < length results" "results ! i = r"
    by (auto simp: in_set_conv_nth)
  from l i(1) have "?P (group_keys (rows df) ! i) (results ! i)"
    by (rule list_all2_nthD2)
  moreover from l i(1) have "group_keys (rows df) ! i \<in> set (group_keys (rows df))"
    by (simp add: list_all2_lengthD)
  ultimately show ?thesis
    by (intro exI[of _ "group_keys (rows df) ! i"]) (simp add: i(2) set_group_keys)
qed

lemma result_for_account:
  assumes "required_cols cfg \<subseteq> set (columns df)"
    and "returned (analyze_data py cfg df) = Inr results"
    and "Some k \<in> account_id ` set (rows df)"
  shows "\<exists>r \<in> set results.
           analyze_group cfg (mv_dtype df) (str_of py k)
             (normalize_rows (upper_full py) (account_rows df k)) = Inr r"
proof -
  let ?P = "\<lambda>k row. analyze_group cfg (mv_dtype df) (str_of py k)
      (normalize_rows (upper_full py) (account_rows df k)) = Inr row"
  have l: "list_all2 ?P (group_keys (rows df)) results"
    by (rule result_keys[OF assms(1,2)])
  from assms(3) have "k \<in> set (group_keys (rows df))" by (simp add: set_group_keys)
  then obtain i where i: "i < length (group_keys (rows df))" "group_keys (rows df) ! i = k"
    by (auto simp: in_set_conv_nth)
  from l i(1) have "?P (group_keys (rows df) ! i) (results ! i)"
    by (rule list_all2_nthD)
  moreover from l i(1) have "results ! i \<in> set results"
    by (simp add: list_all2_lengthD[symmetric])
  ultimately show ?thesis
    by (intro bexI[of _ "results ! i"]) (simp_all add: i(2))
qed

lemma result_ids:
  assumes "required_cols cfg \<subseteq> set (columns df)"
    and "returned (analyze_data py cfg df) = Inr results"
  shows "map acc_id results = map (str_of py) (group_keys (rows df))"
proof -
  from result_keys[OF assms]
  have "list_all2 (\<lambda>k row. str_of py k = acc_id row) (group_keys (rows df)) results"
    by (rule list_all2_mono) (auto dest: analyze_group_acc_id)
  then have "map (str_of py) (group_keys (rows df)) = map acc_id results"
    by (induction rule: list_all2_induct) auto
  then show ?thesis by simp
qed

section \<open>The claims\<close>

text \<open>
  C4. When the table lacks the account, the ticker or the market-value column, the
  analyzer shows one message that names exactly the required columns the table does not
  have (a non-empty set), returns no row, and leaves the table as it was: no ticker has
  been normalised, and the outcome is the same whatever the rows are.
\<close>
theorem schema_error:
  "col_account_id cfg \<notin> set (columns df) \<or> col_ticker cfg \<notin> set (columns df) \<or>
   col_market_value cfg \<notin> set (columns df) \<longrightarrow>
     (\<exists>missing. st_errors (analyze_data py cfg df) = [MissingColumns missing (required_cols cfg)] \<and>
        missing = {c \<in> {col_account_id cfg, col_ticker cfg, col_market_value cfg}.
                     c \<notin> set (columns df)} \<and>
        missing \<noteq> {}) \<and>
     returned (analyze_data py cfg df) = Inr [] \<and>
     df_after (analyze_data py cfg df) = df \<and>
     (\<forall>rs. st_errors (analyze_data py cfg (df\<lparr>rows := rs\<rparr>)) = st_errors (analyze_data py cfg df) \<and>
           returned (analyze_data py cfg (df\<lparr>rows := rs\<rparr>)) = Inr [])"
proof
  assume "col_account_id cfg \<notin> set (columns df) \<or> col_ticker cfg \<notin> set (columns df) \<or>
   col_market_value cfg \<notin> set (columns df)"
  then have n: "\<not> required_cols cfg \<subseteq> set (columns df)"
    by (auto simp: required_cols_def)
  have m: "required_cols cfg - set (columns df) =
      {c \<in> {col_account_id cfg, col_ticker cfg, col_market_value cfg}. c \<notin> set (columns df)}"
    by (auto simp: required_cols_def)
  from n have ne: "required_cols cfg - set (columns df) \<noteq> {}" by blast
  have 1: "\<exists>missing. st_errors (analyze_data py cfg df) = [MissingColumns missing (required_cols cfg)] \<and>
        missing = {c \<in> {col_account_id cfg, col_ticker cfg, col_market_value cfg}.
                     c \<notin> set (columns df)} \<and>
        missing \<noteq> {}"
    using n m ne by (simp add: analyze_data_def)
  have 2: "returned (analyze_data py cfg df) = Inr []" "df_after (analyze_data py cfg df) = df"
    using n by (simp_all add: analyze_data_def)
  have 3: "st_errors (analyze_data py cfg (df\<lparr>rows := rs\<rparr>)) = st_errors (analyze_data py cfg df) \<and>
           returned (analyze_data py cfg (df\<lparr>rows := rs\<rparr>)) = Inr []" for rs
    using n by (simp add: analyze_data_def)
  from 1 2 3 show "(\<exists>missing. st_errors (analyze_data py cfg df) = [MissingColumns missing (required_cols cfg)] \<and>
        missing = {c \<in> {col_account_id cfg, col_ticker cfg, col_market_value cfg}.
                     c \<notin> set (columns df)} \<and>
        missing \<noteq> {}) \<and>
     returned (analyze_data py cfg df) = Inr [] \<and>
     df_after (analyze_data py cfg df) = df \<and>
     (\<forall>rs. st_errors (analyze_data py cfg (df\<lparr>rows := rs\<rparr>)) = st_errors (analyze_data py cfg df) \<and>
           returned (analyze_data py cfg (df\<lparr>rows := rs\<rparr>)) = Inr [])"
    by blast
qed

theorem schema_error_witness:
  "col_market_value ex_cfg \<notin> set (columns (ex_df\<lparr>columns := [''account'', ''ticker'']\<rparr>)) \<and>
   st_errors (analyze_data ex_py ex_cfg (ex_df\<lparr>columns := [''account'', ''ticker'']\<rparr>)) =
     [MissingColumns {''mv''} {''account'', ''ticker'', ''mv''}] \<and>
   returned (analyze_data ex_py ex_cfg (ex_df\<lparr>columns := [''account'', ''ticker'']\<rparr>)) = Inr [] \<and>
   df_after (analyze_data ex_py ex_cfg (ex_df\<lparr>columns := [''account'', ''ticker'']\<rparr>)) =
     ex_df\<lparr>columns := [''account'', ''ticker'']\<rparr>"
proof -
  let ?df = "ex_df\<lparr>columns := [''account'', ''ticker'']\<rparr>"
  have c: "columns ?df = [''account'', ''ticker'']" by simp
  have a: "col_account_id ex_cfg = ''account''" "col_ticker ex_cfg = ''ticker''"
    "col_market_value ex_cfg = ''mv''"
    by (simp_all add: ex_cfg_def)
  have h: "col_market_value ex_cfg \<notin> set (columns ?df)"
    by (simp only: a c) simp
  have m: "{c \<in> {col_account_id ex_cfg, col_ticker ex_cfg, col_market_value ex_cfg}.
              c \<notin> set (columns ?df)} = {''mv''}"
    by (simp only: a c) auto
  have r: "required_cols ex_cfg = {''account'', ''ticker'', ''mv''}"
    by (simp only: required_cols_def a)
  from schema_error[of ex_cfg ?df ex_py] h
  have "(\<exists>missing. st_errors (analyze_data ex_py ex_cfg ?df) = [MissingColumns missing (required_cols ex_cfg)] \<and>
        missing = {c \<in> {col_account_id ex_cfg, col_ticker ex_cfg, col_market_value ex_cfg}.
                     c \<notin> set (columns ?df)} \<and>
        missing \<noteq> {}) \<and>
     returned (analyze_data ex_py ex_cfg ?df) = Inr [] \<and>
     df_after (analyze_data ex_py ex_cfg ?df) = ?df"
    by blast
  then have "st_errors (analyze_data ex_py ex_cfg ?df) =
       [MissingColumns {''mv''} {''account'', ''ticker'', ''mv''}] \<and>
     returned (analyze_data ex_py ex_cfg ?df) = Inr [] \<and>
     df_after (analyze_data ex_py ex_cfg ?df) = ?df"
    by (simp only: m r) blast
  with h show ?thesis by blast
qed

end
